theory Spec2Isabelle
  imports Main "HOL-Library.Sublist"
begin

section \<open>The wholesale registration action of the app proxy route\<close>

text \<open>
  This theory embeds the \<^verbatim>\<open>action\<close> handler of the app proxy route, in the revision
  that resolves the customer by email, looks the company up by its
  \<^verbatim>\<open>custom.companyEmail\<close> metafield, creates or reuses the company, assigns address and
  tax id, creates or updates the customer and links customer and company
  (\<^verbatim>\<open>src/unnamed/part_000\<close>, lines 997 to 2173).
  \<^verbatim>\<open>src/app/routes/apps.proxy.jsx\<close> is an earlier revision of the same handler: it has
  no company lookup, sends no tags and assigns no role; every step it shares with the
  embedded revision reads the same, line for line.

  The handler is a straight line of awaited GraphQL calls. The remote directory is not
  part of the program, so a run is determined by the submitted form and by the parsed
  JSON body each call site receives. The model takes both as arguments and returns the
  ordered list of calls the handler issues together with the HTTP response.

  Every call is taken to deliver a parsed JSON body, the contract under which the
  handler uses its GraphQL client. The handler wraps the metafield, address, tax and
  role steps in \<^verbatim>\<open>try\<close> blocks whose handlers only log; with calls that deliver a body
  these handlers are not entered. The outer handler, which answers with status 500 and
  the message of the exception, is entered on the exceptions the handler's own
  statements raise on its data: \<^verbatim>\<open>new URL(referrer)\<close> on a \<^verbatim>\<open>Referer\<close> header that is
  not a URL, before any call; \<^verbatim>\<open>userEmail.toLowerCase()\<close> when the form has no
  \<^verbatim>\<open>userEmail\<close>, before the first call; and \<^verbatim>\<open>edge.node.email.toLowerCase()\<close> in the
  email-conflict search when a customer of the examined reply has no email, after the
  company and the customer creation have been sent. The values of the form are strings.
  Console output is not part of the model, except the branch the tax step logs.
\<close>

subsection \<open>JavaScript strings and truthiness\<close>

text \<open>
  A string is a list of 8-bit characters, read as the code points U+0000 to U+00FF
  (Latin-1). \<^verbatim>\<open>toLowerCase\<close> and \<^verbatim>\<open>trim\<close> are those of the language on this range: the
  letters A to Z and the capitals U+00C0 to U+00DE, the multiplication sign U+00D7
  excepted, are lowered to the code point 32 above, every other character is kept;
  the characters removed at both ends are the white space and line terminators of the
  range: tab, line feed, vertical tab, form feed, carriage return, space and the
  no-break space U+00A0.
\<close>

definition upper_letters :: string where
  "upper_letters =
     ''ABCDEFGHIJKLMNOPQRSTUVWXYZ'' @
     [CHR 0xC0, CHR 0xC1, CHR 0xC2, CHR 0xC3, CHR 0xC4, CHR 0xC5, CHR 0xC6, CHR 0xC7,
      CHR 0xC8, CHR 0xC9, CHR 0xCA, CHR 0xCB, CHR 0xCC, CHR 0xCD, CHR 0xCE, CHR 0xCF,
      CHR 0xD0, CHR 0xD1, CHR 0xD2, CHR 0xD3, CHR 0xD4, CHR 0xD5, CHR 0xD6,
      CHR 0xD8, CHR 0xD9, CHR 0xDA, CHR 0xDB, CHR 0xDC, CHR 0xDD, CHR 0xDE]"

definition lower_letters :: string where
  "lower_letters =
     ''abcdefghijklmnopqrstuvwxyz'' @
     [CHR 0xE0, CHR 0xE1, CHR 0xE2, CHR 0xE3, CHR 0xE4, CHR 0xE5, CHR 0xE6, CHR 0xE7,
      CHR 0xE8, CHR 0xE9, CHR 0xEA, CHR 0xEB, CHR 0xEC, CHR 0xED, CHR 0xEE, CHR 0xEF,
      CHR 0xF0, CHR 0xF1, CHR 0xF2, CHR 0xF3, CHR 0xF4, CHR 0xF5, CHR 0xF6,
      CHR 0xF8, CHR 0xF9, CHR 0xFA, CHR 0xFB, CHR 0xFC, CHR 0xFD, CHR 0xFE]"

definition lower_char :: "char \<Rightarrow> char" where
  "lower_char c =
     (case map_of (zip upper_letters lower_letters) c of
        Some l \<Rightarrow> l
      | None \<Rightarrow> c)"

definition toLowerCase :: "string \<Rightarrow> string" where
  "toLowerCase s = map lower_char s"

definition is_space :: "char \<Rightarrow> bool" where
  "is_space c =
     (c \<in> set [CHR 0x09, CHR 0x0A, CHR 0x0B, CHR 0x0C, CHR 0x0D, CHR 0x20, CHR 0xA0])"

definition trim :: "string \<Rightarrow> string" where
  "trim s = rev (dropWhile is_space (rev (dropWhile is_space s)))"

text \<open>\<^verbatim>\<open>s.includes(sub)\<close>: \<open>sub\<close> occurs in \<open>s\<close> as a contiguous piece.\<close>

definition str_includes :: "string \<Rightarrow> string \<Rightarrow> bool" where
  "str_includes s sub = sublist sub s"

text \<open>A string is truthy when it is not empty; \<^verbatim>\<open>null\<close> and \<^verbatim>\<open>undefined\<close> are \<open>None\<close>.\<close>

definition truthy :: "string \<Rightarrow> bool" where
  "truthy s = (s \<noteq> [])"

definition truthy_opt :: "string option \<Rightarrow> bool" where
  "truthy_opt x = (case x of None \<Rightarrow> False | Some s \<Rightarrow> truthy s)"

text \<open>\<^verbatim>\<open>x || ""\<close>.\<close>

definition or_empty :: "string option \<Rightarrow> string" where
  "or_empty x = (case x of None \<Rightarrow> [] | Some s \<Rightarrow> s)"

text \<open>A value spliced into a template literal.\<close>

definition template :: "string option \<Rightarrow> string" where
  "template x = (case x of None \<Rightarrow> ''null'' | Some s \<Rightarrow> s)"

text \<open>An \<^verbatim>\<open>if (id) { ... }\<close> block that contributes events.\<close>

definition when_id :: "string option \<Rightarrow> (string \<Rightarrow> 'a list) \<Rightarrow> 'a list" where
  "when_id x k = (case x of None \<Rightarrow> [] | Some s \<Rightarrow> if truthy s then k s else [])"

text \<open>
  \<^verbatim>\<open>s.replace(sub, rep)\<close> with a string pattern: the first occurrence of \<open>sub\<close> is
  replaced.
\<close>

fun replace_first :: "string \<Rightarrow> string \<Rightarrow> string \<Rightarrow> string" where
  "replace_first sub rep [] = (if sub = [] then rep else [])"
| "replace_first sub rep (c # cs) =
     (if prefix sub (c # cs) then rep @ drop (length sub) (c # cs)
      else c # replace_first sub rep cs)"

text \<open>
  \<^verbatim>\<open>customerId\<close> starts as \<^verbatim>\<open>null\<close> and is assigned the id of a customer node, a string,
  or the path \<^verbatim>\<open>customerJson.data?.customerCreate?.customer?.id\<close>, which is
  \<^verbatim>\<open>undefined\<close> when a link is missing. The two differ in the response: a key whose
  value is \<^verbatim>\<open>undefined\<close> is left out of the JSON body, a \<^verbatim>\<open>null\<close> is written.
\<close>

datatype customer_id = CustomerNull | CustomerUndefined | CustomerId string

definition path_id :: "string option \<Rightarrow> customer_id" where
  "path_id x = (case x of None \<Rightarrow> CustomerUndefined | Some s \<Rightarrow> CustomerId s)"

definition id_string :: "customer_id \<Rightarrow> string option" where
  "id_string k = (case k of CustomerId s \<Rightarrow> Some s | _ \<Rightarrow> None)"

definition truthy_customer :: "customer_id \<Rightarrow> bool" where
  "truthy_customer k = truthy_opt (id_string k)"

subsection \<open>The submitted form\<close>

text \<open>\<^verbatim>\<open>formData.get(name)\<close> is a string, or \<^verbatim>\<open>null\<close> when the field was not sent.\<close>

record form =
  companyName :: "string option"
  firstName :: "string option"
  lastName :: "string option"
  location :: "string option"
  taxId :: "string option"
  phone :: "string option"
  companyEmail :: "string option"
  userEmail :: "string option"
  address1 :: "string option"
  address2 :: "string option"
  country :: "string option"
  state :: "string option"
  city :: "string option"
  zip_code :: "string option"

subsection \<open>What the handler reads from the replies\<close>

text \<open>
  A reply is modelled by the parts the handler reads. A path read through \<^verbatim>\<open>?.\<close> is an
  option: \<open>None\<close> when some link of the path is missing. A field the handler
  dereferences without a guard and the schema declares non-null (a node's \<^verbatim>\<open>id\<close>, a
  metafield's \<^verbatim>\<open>value\<close>, a role's \<^verbatim>\<open>name\<close>, a userError's \<^verbatim>\<open>message\<close>) is the string
  the query selects. A customer's \<^verbatim>\<open>email\<close> is nullable: \<open>None\<close> is \<^verbatim>\<open>null\<close>.
\<close>

record customer_node =
  cn_id :: string
  cn_email :: "string option"
  cn_tags :: "string list option"

text \<open>\<^verbatim>\<open>json.data?.customers?.edges\<close>, each edge given by its node.\<close>

type_synonym customer_edges = "customer_node list option"

record metafield_node =
  mf_namespace :: string
  mf_key :: string
  mf_value :: string

record company_node =
  co_id :: string
  co_metafields :: "metafield_node list option"

text \<open>\<^verbatim>\<open>json.data?.<mutation>?.userErrors\<close>, each error given by its message.\<close>

record mutation_reply =
  userErrors :: "string list option"

record company_create_reply =
  cc_errors :: "string list option"
  cc_userErrors :: "string list option"
  cc_company_id :: "string option"

record tax_reply =
  tx_errors :: "string list option"
  tx_userErrors :: "string list option"

record customer_create_reply =
  cr_errors :: "string list option"
  cr_userErrors :: "string list option"
  cr_customer_id :: "string option"

record assign_contact_reply =
  ac_companyContact_id :: "string option"
  ac_userErrors :: "string list option"

record role =
  role_id :: string
  role_name :: string

record roles_reply =
  defaultRole :: "role option"
  contactRoles :: "role list option"

text \<open>One reply per call site, named after the variable that holds it in the handler.\<close>

record remote =
  customerCheckJson :: customer_edges
  customerUpdateJson :: mutation_reply
  companyCheckJson :: "company_node list option"
  companyJson :: company_create_reply
  metafieldJson :: mutation_reply
  companyLocationJson :: "string option"
  updateLocationJson :: mutation_reply
  addressJson :: mutation_reply
  taxUpdateJson :: tax_reply
  customerJson :: customer_create_reply
  fallbackSearchJson1 :: customer_edges
  fallbackSearchJson2 :: customer_edges
  allCustomersJson :: customer_edges
  fallbackUpdateJson :: mutation_reply
  assignCustomerAsContactJson :: assign_contact_reply
  assignMainJson :: mutation_reply
  locationData :: "string option"
  rolesData :: roles_reply
  roleResult :: mutation_reply
  assignNewCustomerJson :: mutation_reply

subsection \<open>The calls the handler issues\<close>

text \<open>In the inputs, an optional key the handler leaves out is \<open>None\<close>.\<close>

record customer_update_input =
  cu_id :: string
  cu_firstName :: "string option"
  cu_lastName :: "string option"
  cu_tags :: "string list"
  cu_phone :: "string option"

record customer_create_input =
  cn_firstName :: "string option"
  cn_lastName :: "string option"
  cn_userEmail :: "string option"
  cn_new_tags :: "string list"
  cn_phone :: "string option"

record company_contact_input =
  ct_email :: "string option"
  ct_firstName :: "string option"
  ct_lastName :: "string option"

text \<open>\<open>ci_externalId\<close> is the clock value of \<^verbatim>\<open>ext-${Date.now()}\<close>.\<close>

record company_input =
  ci_name :: "string option"
  ci_externalId :: nat
  ci_note :: string
  ci_companyContact :: "company_contact_input option"

record metafield_input =
  mi_ownerId :: string
  mi_namespace :: string
  mi_key :: string
  mi_value :: string
  mi_type :: string

record address_input =
  ad_address1 :: string
  ad_city :: string
  ad_countryCode :: string
  ad_zoneCode :: string
  ad_zip :: string
  ad_address2 :: "string option"

datatype call =
    GetCustomerByEmail string
  | UpdateCustomer customer_update_input
  | GetCompaniesByEmailMetafield
  | CreateCompany company_input
  | SetCompanyEmailMetafield metafield_input
  | GetCompanyLocations string
  | UpdateCompanyLocationName string string
  | CompanyLocationAssignAddress string address_input
  | SetCompanyLocationTaxId string string
  | CreateCustomer customer_create_input
  | SearchCustomerByEmail string
  | SearchCustomerByEmailPrefix string
  | GetAllRecentCustomers
  | AssignCustomerAsContact string string
  | AssignMainContact string string
  | GetLocationRoles string
  | GetCompanyRoles string
  | AssignRole string string string
  | AssignNewCustomerAsContact string string

text \<open>The branch of the tax step, which shows only in the log.\<close>

datatype tax_log = TaxUnavailableWarned | TaxGraphqlErrorsLogged | TaxUserErrorsLogged | TaxSetLogged

datatype event = Call call | TaxLog tax_log

text \<open>The calls whose GraphQL document is a \<^verbatim>\<open>mutation\<close>; the others are queries.\<close>

fun mutation :: "call \<Rightarrow> bool" where
  "mutation (UpdateCustomer inp) = True"
| "mutation (CreateCompany inp) = True"
| "mutation (SetCompanyEmailMetafield inp) = True"
| "mutation (UpdateCompanyLocationName locationId name) = True"
| "mutation (CompanyLocationAssignAddress locationId address) = True"
| "mutation (SetCompanyLocationTaxId locationId taxRegistrationId) = True"
| "mutation (CreateCustomer inp) = True"
| "mutation (AssignCustomerAsContact companyId customerId) = True"
| "mutation (AssignMainContact companyId companyContactId) = True"
| "mutation (AssignRole contactId roleId locationId) = True"
| "mutation (AssignNewCustomerAsContact companyId customerId) = True"
| "mutation (GetCustomerByEmail q) = False"
| "mutation GetCompaniesByEmailMetafield = False"
| "mutation (GetCompanyLocations companyId) = False"
| "mutation (SearchCustomerByEmail email) = False"
| "mutation (SearchCustomerByEmailPrefix q) = False"
| "mutation GetAllRecentCustomers = False"
| "mutation (GetLocationRoles companyId) = False"
| "mutation (GetCompanyRoles companyId) = False"

fun mutation_event :: "event \<Rightarrow> bool" where
  "mutation_event (Call c) = mutation c"
| "mutation_event (TaxLog b) = False"

subsection \<open>The response\<close>

text \<open>
  The exceptions the handler's statements raise on its data, both a \<^verbatim>\<open>TypeError\<close>:
  the \<^verbatim>\<open>URL\<close> constructor on a string that is not a URL, and the read of a property of
  \<^verbatim>\<open>null\<close>. The outer handler answers with the message of the exception as \<^verbatim>\<open>details\<close>.
\<close>

datatype exn = InvalidURL | PropertyOfNull

datatype details = GraphqlErrors "string list" | UserErrors "string list" | ExnMessage exn

text \<open>
  \<open>Result success companyId customerId message customerError\<close> is the object the handler
  passes to \<^verbatim>\<open>json\<close> at its end, where a \<^verbatim>\<open>companyId\<close> that is \<open>None\<close> is \<^verbatim>\<open>undefined\<close>
  (line 1287 declares it without a value, lines 1291 and 1355 assign a node's id or an
  optional path); \<open>Failure status error details\<close> is a return with an HTTP error
  status.
\<close>

datatype response =
    Result bool "string option" customer_id string "string option"
  | Failure nat string "details option"




subsection \<open>Shop, session and client\<close>

text \<open>
  Lines 1003 to 1112. The shop is the one the app proxy authentication yields, else the
  \<^verbatim>\<open>shop\<close> parameter of the URL, else the \<^verbatim>\<open>shop\<close> field of the form, else the host of
  the \<^verbatim>\<open>Referer\<close> header without \<^verbatim>\<open>.myshopify.com\<close>. The authentication and the session
  storage come from \<^verbatim>\<open>../shopify.server\<close>, which is not among the sources: what they
  yield is part of the request environment, as is the outcome of parsing the header,
  which raises when the header is not a URL (line 1027).
\<close>

datatype referer = NoReferer | MalformedReferer | RefererHost string

text \<open>
  \<open>proxyShop\<close> is \<open>None\<close> when the app proxy authentication throws or yields no shop;
  \<open>sessions\<close> lists the keys under which the session storage holds a session.
\<close>

record request_env =
  proxyShop :: "string option"
  urlShop :: "string option"
  formShop :: "string option"
  refererHeader :: referer
  sessions :: "string list"

text \<open>The value of \<^verbatim>\<open>shop\<close> at line 1037, or the exception of line 1027.\<close>

definition resolve_shop :: "request_env \<Rightarrow> exn + string option" where
  "resolve_shop env =
     (if truthy_opt (proxyShop env) then Inr (proxyShop env)
      else if truthy_opt (urlShop env) then Inr (urlShop env)
      else if truthy_opt (formShop env) then Inr (formShop env)
      else
        (case refererHeader env of
           NoReferer \<Rightarrow> Inr (formShop env)
         | MalformedReferer \<Rightarrow> Inl InvalidURL
         | RefererHost hostname \<Rightarrow>
             if str_includes hostname ''.myshopify.com''
             then Inr (Some (replace_first ''.myshopify.com'' [] hostname))
             else Inr (formShop env)))"

text \<open>
  What the lines before the first call come to: a return with status 400 or 401, an
  exception, or a client for the shop.
\<close>

datatype prelude = ShopMissing | SessionMissing | PreludeRaised exn | AdminReady

definition prelude_of :: "request_env \<Rightarrow> prelude" where
  "prelude_of env =
     (case resolve_shop env of
        Inl x \<Rightarrow> PreludeRaised x
      | Inr shop \<Rightarrow>
          if \<not> truthy_opt shop then ShopMissing
          else if ''offline_'' @ or_empty shop \<in> set (sessions env) \<or>
                  ''offline_'' @ or_empty shop @ ''.myshopify.com'' \<in> set (sessions env)
               then AdminReady
               else SessionMissing)"

subsection \<open>Identity: the existing customer and its update\<close>

text \<open>Lines 1128 to 1222: the email-filtered query, its first node, the update.\<close>

definition customerCheckQuery :: "string \<Rightarrow> string" where
  "customerCheckQuery u = ''email:'' @ [CHR 0x22] @ trim (toLowerCase u) @ [CHR 0x22]"

text \<open>\<^verbatim>\<open>customerCheckJson.data?.customers?.edges?.[0]?.node\<close>\<close>

definition first_customer :: "customer_edges \<Rightarrow> customer_node option" where
  "first_customer edges = (case edges of None \<Rightarrow> None | Some [] \<Rightarrow> None | Some (c # cs) \<Rightarrow> Some c)"

text \<open>\<^verbatim>\<open>existingTags = tags || []\<close>, then \<^verbatim>\<open>push\<close> unless \<^verbatim>\<open>includes\<close>.\<close>

definition merge_tags :: "string list option \<Rightarrow> string list" where
  "merge_tags tags =
     (let existingTags = (case tags of None \<Rightarrow> [] | Some ts \<Rightarrow> ts);
          wholesaleTag = ''wholesale''
      in if wholesaleTag \<notin> set existingTags then existingTags @ [wholesaleTag] else existingTags)"

definition phone_input :: "string option \<Rightarrow> string option" where
  "phone_input formPhone =
     (case formPhone of
        None \<Rightarrow> None
      | Some p \<Rightarrow> if truthy p \<and> truthy (trim p) then Some (trim p) else None)"

text \<open>
  \<^verbatim>\<open>customerInput\<close> of the existing-customer path and \<^verbatim>\<open>fallbackCustomerInput\<close> of the
  email-conflict path are built by the same statements.
\<close>

definition update_input :: "form \<Rightarrow> customer_node \<Rightarrow> customer_update_input" where
  "update_input f c =
     \<lparr>cu_id = cn_id c, cu_firstName = firstName f, cu_lastName = lastName f,
      cu_tags = merge_tags (cn_tags c), cu_phone = phone_input (phone f)\<rparr>"

definition update_existing :: "form \<Rightarrow> customer_node option \<Rightarrow> event list" where
  "update_existing f existingCustomer =
     (case existingCustomer of
        Some c \<Rightarrow> [Call (UpdateCustomer (update_input f c))]
      | None \<Rightarrow> [])"

subsection \<open>Company: lookup by metafield, create or reuse\<close>

text \<open>
  Lines 1224 to 1284: the scan of the fetched companies for the email metafield;
  lines 1286 to 1357: reuse or \<^verbatim>\<open>companyCreate\<close> with its two early returns;
  lines 1359 to 1414: the metafield write for a new company.
\<close>

definition email_metafield :: "string \<Rightarrow> metafield_node \<Rightarrow> bool" where
  "email_metafield e m =
     (mf_namespace m = ''custom'' \<and> mf_key m = ''companyEmail'' \<and>
      toLowerCase (mf_value m) = trim (toLowerCase e))"

definition has_email_metafield :: "string \<Rightarrow> company_node \<Rightarrow> bool" where
  "has_email_metafield e company =
     (case co_metafields company of
        None \<Rightarrow> False
      | Some ms \<Rightarrow> find (email_metafield e) ms \<noteq> None)"

definition resolve_company :: "form \<Rightarrow> remote \<Rightarrow> event list \<times> company_node option" where
  "resolve_company f r =
     (case companyEmail f of
        None \<Rightarrow> ([], None)
      | Some e \<Rightarrow>
          if truthy e \<and> truthy (trim e) then
            (let companies = (case companyCheckJson r of None \<Rightarrow> [] | Some cs \<Rightarrow> cs)
             in ([Call GetCompaniesByEmailMetafield], find (has_email_metafield e) companies))
          else ([], None))"

definition company_input_for :: "nat \<Rightarrow> form \<Rightarrow> customer_node option \<Rightarrow> company_input" where
  "company_input_for now f existingCustomer =
     (if existingCustomer \<noteq> None then
        \<lparr>ci_name = companyName f, ci_externalId = now,
         ci_note = ''Created from Wholesale Registration form'', ci_companyContact = None\<rparr>
      else
        \<lparr>ci_name = companyName f, ci_externalId = now,
         ci_note = ''Created from Wholesale Registration form'',
         ci_companyContact =
           Some \<lparr>ct_email = userEmail f, ct_firstName = firstName f, ct_lastName = lastName f\<rparr>\<rparr>)"

text \<open>\<open>Inl\<close> is the early return with status 400, \<open>Inr\<close> the value of \<^verbatim>\<open>companyId\<close>.\<close>

definition create_or_reuse ::
  "nat \<Rightarrow> form \<Rightarrow> remote \<Rightarrow> customer_node option \<Rightarrow> company_node option \<Rightarrow>
     event list \<times> (response + string option)" where
  "create_or_reuse now f r existingCustomer existingCompany =
     (case existingCompany of
        Some company \<Rightarrow> ([], Inr (Some (co_id company)))
      | None \<Rightarrow>
          ([Call (CreateCompany (company_input_for now f existingCustomer))],
           (case cc_errors (companyJson r) of
              Some errs \<Rightarrow>
                Inl (Failure 400 ''GraphQL errors in company creation'' (Some (GraphqlErrors errs)))
            | None \<Rightarrow>
                (case cc_userErrors (companyJson r) of
                   Some (e # es) \<Rightarrow>
                     Inl (Failure 400 ''Failed to create company'' (Some (UserErrors (e # es))))
                 | _ \<Rightarrow> Inr (cc_company_id (companyJson r))))))"

definition set_email_metafield :: "form \<Rightarrow> string option \<Rightarrow> company_node option \<Rightarrow> event list" where
  "set_email_metafield f companyId existingCompany =
     when_id companyId (\<lambda>cid.
       if existingCompany = None then
         (case companyEmail f of
            None \<Rightarrow> []
          | Some e \<Rightarrow>
              if truthy e \<and> truthy (trim e) then
                [Call (SetCompanyEmailMetafield
                   \<lparr>mi_ownerId = cid, mi_namespace = ''custom'', mi_key = ''companyEmail'',
                    mi_value = trim e, mi_type = ''single_line_text_field''\<rparr>)]
              else [])
       else [])"

subsection \<open>Address and tax id\<close>

text \<open>Lines 1416 to 1633; the branches of the tax reply are at lines 1595 to 1616.\<close>

definition address_for :: "form \<Rightarrow> string \<Rightarrow> address_input" where
  "address_for f a1 =
     \<lparr>ad_address1 = trim a1,
      ad_city = (case city f of None \<Rightarrow> [] | Some c \<Rightarrow> if truthy (trim c) then trim c else []),
      ad_countryCode = trim (case country f of None \<Rightarrow> ''IN'' | Some c \<Rightarrow> if truthy c then c else ''IN''),
      ad_zoneCode = trim (or_empty (state f)),
      ad_zip = (case zip_code f of None \<Rightarrow> [] | Some z \<Rightarrow> if truthy (trim z) then trim z else []),
      ad_address2 = (case address2 f of
                       None \<Rightarrow> None
                     | Some a2 \<Rightarrow> if truthy a2 \<and> truthy (trim a2) then Some (trim a2) else None)\<rparr>"

definition mutation_not_found :: "string \<Rightarrow> bool" where
  "mutation_not_found msg =
     (str_includes msg ''companyLocationTaxSettingsUpdate'' \<and>
      str_includes msg (''doesn't exist on type 'Mutation'' @ [CHR 0x27]))"

definition tax_branch :: "tax_reply \<Rightarrow> tax_log" where
  "tax_branch j =
     (case tx_errors j of
        Some errs \<Rightarrow>
          if list_ex mutation_not_found errs then TaxUnavailableWarned else TaxGraphqlErrorsLogged
      | None \<Rightarrow>
          (case tx_userErrors j of
             Some (e # es) \<Rightarrow> TaxUserErrorsLogged
           | _ \<Rightarrow> TaxSetLogged))"

definition set_tax_id :: "form \<Rightarrow> remote \<Rightarrow> string \<Rightarrow> event list" where
  "set_tax_id f r locationId =
     (case taxId f of
        None \<Rightarrow> []
      | Some t \<Rightarrow>
          if truthy t \<and> truthy (trim t) then
            [Call (SetCompanyLocationTaxId locationId (trim t)), TaxLog (tax_branch (taxUpdateJson r))]
          else [])"

definition assign_address :: "form \<Rightarrow> remote \<Rightarrow> string option \<Rightarrow> event list" where
  "assign_address f r companyId =
     when_id companyId (\<lambda>cid.
       case address1 f of
         None \<Rightarrow> []
       | Some a1 \<Rightarrow>
           if truthy a1 \<and> truthy (trim a1) then
             Call (GetCompanyLocations cid) #
             when_id (companyLocationJson r) (\<lambda>locationId.
               (let locationNameFromForm = trim (or_empty (location f))
                in if truthy locationNameFromForm
                   then [Call (UpdateCompanyLocationName locationId locationNameFromForm)]
                   else []) @
               [Call (CompanyLocationAssignAddress locationId (address_for f a1))] @
               set_tax_id f r locationId)
           else [])"

subsection \<open>Customer: reuse, create, or find after an email conflict\<close>

text \<open>Lines 1635 to 1881; the three search strategies are at lines 1700 to 1798.\<close>

definition create_input :: "form \<Rightarrow> customer_create_input" where
  "create_input f =
     \<lparr>cn_firstName = firstName f, cn_lastName = lastName f, cn_userEmail = userEmail f,
      cn_new_tags = [''wholesale''], cn_phone = phone_input (phone f)\<rparr>"

text \<open>\<^verbatim>\<open>!fallbackSearchJson.data?.customers?.edges?.length\<close>\<close>

definition no_edges :: "customer_edges \<Rightarrow> bool" where
  "no_edges j = (case j of None \<Rightarrow> True | Some [] \<Rightarrow> True | Some (c # cs) \<Rightarrow> False)"

text \<open>
  The test of lines 1776 and 1797,
  \<^verbatim>\<open>edge.node.email.toLowerCase() === userEmail.toLowerCase().trim()\<close>, on an email that
  is a string.
\<close>

definition email_matches :: "string \<Rightarrow> string \<Rightarrow> bool" where
  "email_matches u email = (toLowerCase email = trim (toLowerCase u))"

text \<open>
  \<^verbatim>\<open>edges.filter(edge => ...)\<close> and \<^verbatim>\<open>edges.find(edge => ...)\<close> with that test. The
  callback reads \<^verbatim>\<open>toLowerCase\<close> of the email without a guard: on a node whose email is
  \<^verbatim>\<open>null\<close> it raises. \<^verbatim>\<open>filter\<close> visits every edge, \<^verbatim>\<open>find\<close> stops at the first match.
\<close>

fun filter_matching :: "string \<Rightarrow> customer_node list \<Rightarrow> exn + customer_node list" where
  "filter_matching u [] = Inr []"
| "filter_matching u (c # cs) =
     (case cn_email c of
        None \<Rightarrow> Inl PropertyOfNull
      | Some email \<Rightarrow>
          (case filter_matching u cs of
             Inl x \<Rightarrow> Inl x
           | Inr rest \<Rightarrow> Inr (if email_matches u email then c # rest else rest)))"

fun find_matching :: "string \<Rightarrow> customer_node list \<Rightarrow> exn + customer_node option" where
  "find_matching u [] = Inr None"
| "find_matching u (c # cs) =
     (case cn_email c of
        None \<Rightarrow> Inl PropertyOfNull
      | Some email \<Rightarrow> if email_matches u email then Inr (Some c) else find_matching u cs)"

text \<open>
  The three strategies; the result is the final value of \<^verbatim>\<open>fallbackSearchJson\<close>, or the
  exception of the filter of the third.
\<close>

definition fallback_search :: "remote \<Rightarrow> string \<Rightarrow> event list \<times> (exn + customer_edges)" where
  "fallback_search r u =
     (let ev1 = [Call (SearchCustomerByEmail (trim u))]
      in if \<not> no_edges (fallbackSearchJson1 r) then (ev1, Inr (fallbackSearchJson1 r))
         else
           (let ev2 = ev1 @ [Call (SearchCustomerByEmailPrefix (''email:'' @ trim u))]
            in if \<not> no_edges (fallbackSearchJson2 r) then (ev2, Inr (fallbackSearchJson2 r))
               else
                 (ev2 @ [Call GetAllRecentCustomers],
                  (case (case allCustomersJson r of
                           None \<Rightarrow> Inr []
                         | Some es \<Rightarrow> filter_matching u es) of
                     Inl x \<Rightarrow> Inl x
                   | Inr matchingCustomers \<Rightarrow>
                       Inr (if matchingCustomers \<noteq> [] then Some matchingCustomers
                            else fallbackSearchJson2 r)))))"

text \<open>\<^verbatim>\<open>fallbackSearchJson.data?.customers?.edges?.find(...)?.node\<close>\<close>

definition found_customer :: "string \<Rightarrow> customer_edges \<Rightarrow> exn + customer_node option" where
  "found_customer u j = (case j of None \<Rightarrow> Inr None | Some es \<Rightarrow> find_matching u es)"

text \<open>The customers of the three search replies.\<close>

definition searched :: "remote \<Rightarrow> customer_node list" where
  "searched r =
     (case fallbackSearchJson1 r of None \<Rightarrow> [] | Some es \<Rightarrow> es) @
     (case fallbackSearchJson2 r of None \<Rightarrow> [] | Some es \<Rightarrow> es) @
     (case allCustomersJson r of None \<Rightarrow> [] | Some es \<Rightarrow> es)"

text \<open>
  The events of the email-conflict block and either the exception it raises or the
  values of \<^verbatim>\<open>customerId\<close> and \<^verbatim>\<open>customerError\<close> after it.
\<close>

definition email_conflict ::
  "form \<Rightarrow> remote \<Rightarrow> string \<Rightarrow> string \<Rightarrow>
     event list \<times> (exn + customer_id \<times> string option)" where
  "email_conflict f r u errorMessage =
     (case fallback_search r u of
        (evs, Inl x) \<Rightarrow> (evs, Inl x)
      | (evs, Inr fallbackSearchJson) \<Rightarrow>
          (case found_customer u fallbackSearchJson of
             Inl x \<Rightarrow> (evs, Inl x)
           | Inr (Some foundCustomer) \<Rightarrow>
               (evs @ [Call (UpdateCustomer (update_input f foundCustomer))],
                (case userErrors (fallbackUpdateJson r) of
                   Some (m # ms) \<Rightarrow> Inr (CustomerNull, Some m)
                 | _ \<Rightarrow> Inr (CustomerId (cn_id foundCustomer), None)))
           | Inr None \<Rightarrow> (evs, Inr (CustomerNull, Some errorMessage))))"

definition resolve_customer ::
  "form \<Rightarrow> remote \<Rightarrow> string \<Rightarrow> customer_node option \<Rightarrow>
     event list \<times> (exn + customer_id \<times> string option)" where
  "resolve_customer f r u existingCustomer =
     (case existingCustomer of
        Some c \<Rightarrow> ([], Inr (CustomerId (cn_id c), None))
      | None \<Rightarrow>
          (case cr_errors (customerJson r) of
             Some errs \<Rightarrow>
               ([Call (CreateCustomer (create_input f))],
                Inr (CustomerNull, Some ''GraphQL errors in customer creation''))
           | None \<Rightarrow>
               (case cr_userErrors (customerJson r) of
                  Some (errorMessage # rest) \<Rightarrow>
                    if str_includes errorMessage ''Email has already been taken'' then
                      (case email_conflict f r u errorMessage of
                         (evs, outcome) \<Rightarrow>
                           (Call (CreateCustomer (create_input f)) # evs, outcome))
                    else ([Call (CreateCustomer (create_input f))],
                          Inr (CustomerNull, Some errorMessage))
                | _ \<Rightarrow>
                    ([Call (CreateCustomer (create_input f))],
                     Inr (path_id (cr_customer_id (customerJson r)), None)))))"

subsection \<open>Linking customer and company\<close>

text \<open>Lines 1883 to 2139; the role is chosen at lines 2001 to 2031.\<close>

text \<open>Default role, else a buyer role, else an admin role, else the first role.\<close>

definition select_role :: "roles_reply \<Rightarrow> role option" where
  "select_role rd =
     (case defaultRole rd of
        Some d \<Rightarrow> Some d
      | None \<Rightarrow>
          (case contactRoles rd of
             Some (ro # ros) \<Rightarrow>
               (case find (\<lambda>x. str_includes (toLowerCase (role_name x)) ''buyer'') (ro # ros) of
                  Some buyerRole \<Rightarrow> Some buyerRole
                | None \<Rightarrow>
                    (case find (\<lambda>x. str_includes (toLowerCase (role_name x)) ''admin'') (ro # ros) of
                       Some adminRole \<Rightarrow> Some adminRole
                     | None \<Rightarrow> Some ro))
           | _ \<Rightarrow> None))"

definition assign_location_permissions :: "remote \<Rightarrow> string \<Rightarrow> string \<Rightarrow> event list" where
  "assign_location_permissions r cid companyContactId =
     Call (GetLocationRoles cid) #
     (case locationData r of
        None \<Rightarrow> []
      | Some location_id \<Rightarrow>
          Call (GetCompanyRoles cid) #
          (case select_role (rolesData r) of
             None \<Rightarrow> []
           | Some ro \<Rightarrow>
               if truthy (role_id ro)
               then [Call (AssignRole companyContactId (role_id ro) location_id)]
               else []))"

definition link_customer ::
  "remote \<Rightarrow> string option \<Rightarrow> customer_id \<Rightarrow> customer_node option \<Rightarrow> company_node option \<Rightarrow>
     event list" where
  "link_customer r companyId customerId existingCustomer existingCompany =
     when_id companyId (\<lambda>cid.
       when_id (id_string customerId) (\<lambda>cust.
         if existingCustomer \<noteq> None then
           Call (AssignCustomerAsContact cid cust) #
           when_id (ac_companyContact_id (assignCustomerAsContactJson r)) (\<lambda>companyContactId.
             Call (AssignMainContact cid companyContactId) #
             assign_location_permissions r cid companyContactId)
         else if existingCompany \<noteq> None then [Call (AssignNewCustomerAsContact cid cust)]
         else []))"

subsection \<open>Result aggregation and the handler\<close>

text \<open>
  Lines 2141 to 2167: the result object. The outer handler is at lines 2169 to 2172.
\<close>

definition aggregate :: "string option \<Rightarrow> customer_id \<Rightarrow> string option \<Rightarrow> response" where
  "aggregate companyId customerId customerError =
     (if truthy_opt companyId \<and> truthy_customer customerId then
        Result True companyId customerId ''Company and customer created successfully!'' customerError
      else if truthy_opt companyId \<and> truthy_opt customerError then
        Result True companyId customerId
          (''Company created successfully! Note: '' @ template customerError) customerError
      else if truthy_opt companyId then
        Result True companyId customerId ''Company created successfully!'' customerError
      else
        Result False companyId customerId ''Failed to create company.'' customerError)"

text \<open>
  The steps after the company has been created or reused. None of them returns early;
  an exception of the customer step ends the run in the outer handler.
\<close>

definition after_company ::
  "form \<Rightarrow> remote \<Rightarrow> string \<Rightarrow> customer_node option \<Rightarrow> company_node option \<Rightarrow> string option \<Rightarrow>
     event list \<times> response" where
  "after_company f r u existingCustomer existingCompany companyId =
     (case resolve_customer f r u existingCustomer of
        (evs, Inl x) \<Rightarrow>
          (set_email_metafield f companyId existingCompany @
           assign_address f r companyId @
           evs,
           Failure 500 ''Internal server error'' (Some (ExnMessage x)))
      | (evs, Inr (customerId, customerError)) \<Rightarrow>
          (set_email_metafield f companyId existingCompany @
           assign_address f r companyId @
           evs @
           link_customer r companyId customerId existingCustomer existingCompany,
           aggregate companyId customerId customerError))"

definition before_company :: "form \<Rightarrow> remote \<Rightarrow> string \<Rightarrow> event list" where
  "before_company f r u =
     Call (GetCustomerByEmail (customerCheckQuery u)) #
     update_existing f (first_customer (customerCheckJson r)) @
     fst (resolve_company f r)"

text \<open>
  The handler, given what the lines before the first call come to (\<open>prelude_of\<close> for a
  request environment) and the clock value \<open>now\<close>.
\<close>

definition action :: "prelude \<Rightarrow> nat \<Rightarrow> form \<Rightarrow> remote \<Rightarrow> event list \<times> response" where
  "action pre now f r =
     (case pre of
        ShopMissing \<Rightarrow> ([], Failure 400 ''Shop parameter missing'' None)
      | SessionMissing \<Rightarrow> ([], Failure 401 ''App not installed for this shop'' None)
      | PreludeRaised x \<Rightarrow> ([], Failure 500 ''Internal server error'' (Some (ExnMessage x)))
      | AdminReady \<Rightarrow>
          (case userEmail f of
             None \<Rightarrow>
               ([], Failure 500 ''Internal server error'' (Some (ExnMessage PropertyOfNull)))
           | Some u \<Rightarrow>
               (let existingCustomer = first_customer (customerCheckJson r);
                    existingCompany = snd (resolve_company f r)
                in case create_or_reuse now f r existingCustomer existingCompany of
                     (evc, Inl early) \<Rightarrow> (before_company f r u @ evc, early)
                   | (evc, Inr companyId) \<Rightarrow>
                       (case after_company f r u existingCustomer existingCompany companyId of
                          (evs, resp) \<Rightarrow> (before_company f r u @ evc @ evs, resp)))))"

subsection \<open>Sample submissions and directories\<close>

text \<open>
  The registrant of the end-to-end scenarios, and a directory in which the customer
  \<^verbatim>\<open>jo@acme.test\<close> exists, no company carries the submitted company email and every
  mutation is accepted.
\<close>

definition submission :: form where
  "submission =
     \<lparr>companyName = Some ''Acme'', firstName = Some ''Jo'', lastName = Some ''Doe'',
      location = Some ''Head office'', taxId = Some ''GB123'', phone = Some '' 555 0100 '',
      companyEmail = Some '' Info@Acme.test'', userEmail = Some ''Jo@Acme.test'',
      address1 = Some ''1 Main St'', address2 = None, country = None, state = None,
      city = Some ''Leeds'', zip_code = None\<rparr>"

definition jo :: customer_node where
  "jo = \<lparr>cn_id = ''gid://shopify/Customer/1'', cn_email = Some ''jo@acme.test'',
         cn_tags = Some [''vip'']\<rparr>"

definition accepted :: mutation_reply where
  "accepted = \<lparr>userErrors = Some []\<rparr>"

definition directory :: remote where
  "directory =
     \<lparr>customerCheckJson = Some [jo],
      customerUpdateJson = accepted,
      companyCheckJson = Some [],
      companyJson =
        \<lparr>cc_errors = None, cc_userErrors = Some [],
         cc_company_id = Some ''gid://shopify/Company/7''\<rparr>,
      metafieldJson = accepted,
      companyLocationJson = Some ''gid://shopify/CompanyLocation/8'',
      updateLocationJson = accepted,
      addressJson = accepted,
      taxUpdateJson = \<lparr>tx_errors = None, tx_userErrors = Some []\<rparr>,
      customerJson =
        \<lparr>cr_errors = None, cr_userErrors = Some [],
         cr_customer_id = Some ''gid://shopify/Customer/2''\<rparr>,
      fallbackSearchJson1 = Some [],
      fallbackSearchJson2 = Some [],
      allCustomersJson = Some [],
      fallbackUpdateJson = accepted,
      assignCustomerAsContactJson =
        \<lparr>ac_companyContact_id = Some ''gid://shopify/CompanyContact/9'',
         ac_userErrors = Some []\<rparr>,
      assignMainJson = accepted,
      locationData = Some ''gid://shopify/CompanyLocation/8'',
      rolesData =
        \<lparr>defaultRole = None,
         contactRoles =
           Some [\<lparr>role_id = ''gid://shopify/CompanyContactRole/1'', role_name = ''Location admin''\<rparr>,
                 \<lparr>role_id = ''gid://shopify/CompanyContactRole/2'', role_name = ''Ordering Buyer''\<rparr>]\<rparr>,
      roleResult = accepted,
      assignNewCustomerJson = accepted\<rparr>"

text \<open>
  The same directory when the customer is new and the creation of the customer is refused
  for its phone; and when the company \<^verbatim>\<open>Acme\<close> is already registered under the
  submitted company email, after another company.
\<close>

definition phone_rejected :: remote where
  "phone_rejected =
     directory\<lparr>customerCheckJson := Some [],
       customerJson := \<lparr>cr_errors = None, cr_userErrors = Some [''Phone is invalid''], cr_customer_id = None\<rparr>\<rparr>"

definition acme :: company_node where
  "acme = \<lparr>co_id = ''gid://shopify/Company/3'',
            co_metafields = Some [\<lparr>mf_namespace = ''custom'', mf_key = ''companyEmail'', mf_value = ''info@acme.test''\<rparr>]\<rparr>"




text \<open>
  A second customer whose email only contains the submitted one, and a customer without
  email. The first lookup returns the second customer before the registrant.
\<close>

definition mojo :: customer_node where
  "mojo = \<lparr>cn_id = ''gid://shopify/Customer/5'', cn_email = Some ''mojo@acme.test'', cn_tags = None\<rparr>"

definition ghost :: customer_node where
  "ghost = \<lparr>cn_id = ''gid://shopify/Customer/6'', cn_email = None, cn_tags = None\<rparr>"

definition lookalike :: remote where
  "lookalike = directory\<lparr>customerCheckJson := Some [mojo, jo]\<rparr>"

text \<open>
  Directories in which the customer is new to the first lookup and \<^verbatim>\<open>customerCreate\<close> is
  refused: with two userErrors, the taken email second, while the search by email would
  find the registrant; with the taken email, the prefixed search returning the customer
  without email and the second customer.
\<close>

definition two_errors :: remote where
  "two_errors =
     directory\<lparr>customerCheckJson := Some [],
       customerJson :=
         \<lparr>cr_errors = None,
          cr_userErrors = Some [''Phone is invalid'', ''Email has already been taken''],
          cr_customer_id = None\<rparr>,
       fallbackSearchJson1 := Some [jo]\<rparr>"

definition email_taken_no_email :: remote where
  "email_taken_no_email =
     directory\<lparr>customerCheckJson := Some [],
       customerJson :=
         \<lparr>cr_errors = None, cr_userErrors = Some [''Email has already been taken''],
          cr_customer_id = None\<rparr>,
       fallbackSearchJson2 := Some [ghost, mojo]\<rparr>"



definition tax_unsupported :: remote where
  "tax_unsupported =
     directory\<lparr>taxUpdateJson :=
       \<lparr>tx_errors =
          Some [''Field 'companyLocationTaxSettingsUpdate' doesn't exist on type 'Mutation'' @
                [CHR 0x27]],
        tx_userErrors = None\<rparr>\<rparr>"


definition tax_unsupported_phone_rejected :: remote where
  "tax_unsupported_phone_rejected =
     phone_rejected\<lparr>taxUpdateJson :=
       \<lparr>tx_errors =
          Some [''Field 'companyLocationTaxSettingsUpdate' doesn't exist on type 'Mutation'' @
                [CHR 0x27]],
        tx_userErrors = None\<rparr>\<rparr>"

text \<open>
  Request environments: the app proxy authentication yields the shop and the storage
  holds its session; and no source names the shop while the \<^verbatim>\<open>Referer\<close> header is not a
  URL.
\<close>

definition storefront :: request_env where
  "storefront =
     \<lparr>proxyShop = Some ''acme-wholesale.myshopify.com'', urlShop = None, formShop = None,
      refererHeader = RefererHost ''acme-wholesale.myshopify.com'',
      sessions = [''offline_acme-wholesale.myshopify.com'']\<rparr>"

definition malformed_referer :: request_env where
  "malformed_referer =
     \<lparr>proxyShop = None, urlShop = None, formShop = None,
      refererHeader = MalformedReferer,
      sessions = [''offline_acme-wholesale.myshopify.com'']\<rparr>"

section \<open>Properties of the handler\<close>

text \<open>
  The simplifier's rewriting of \<open>set\<close> over list comprehensions does not apply to the
  event lists of the handler, which are conditionals ending in \<open>[]\<close>; it is switched off.
\<close>

declare TrueI [simproc del: list_to_set_comprehension]

subsection \<open>Strings\<close>

lemma trim_Nil [simp]: "trim [] = []"
  by (simp add: trim_def)


lemma phone_input_eq:
  "phone_input p =
     (case p of None \<Rightarrow> None | Some s \<Rightarrow> if trim s = [] then None else Some (trim s))"
  by (auto simp: phone_input_def truthy_def split: option.splits)

subsection \<open>The shape of a run\<close>

lemma action_ready:
  "userEmail f = Some u \<Longrightarrow>
   action AdminReady now f r =
     (case create_or_reuse now f r (first_customer (customerCheckJson r))
             (snd (resolve_company f r)) of
        (evc, Inl early) \<Rightarrow> (before_company f r u @ evc, early)
      | (evc, Inr companyId) \<Rightarrow>
          (before_company f r u @ evc @
             fst (after_company f r u (first_customer (customerCheckJson r))
                    (snd (resolve_company f r)) companyId),
           snd (after_company f r u (first_customer (customerCheckJson r))
                  (snd (resolve_company f r)) companyId)))"
  by (simp add: action_def Let_def split: prod.splits sum.splits)

lemma after_company_completes:
  "resolve_customer f r u ec = (cevs, Inr (customerId, customerError)) \<Longrightarrow>
   after_company f r u ec eco cid =
     (set_email_metafield f cid eco @ assign_address f r cid @ cevs @
      link_customer r cid customerId ec eco,
      aggregate cid customerId customerError)"
  by (simp add: after_company_def)

lemma after_company_raises:
  "resolve_customer f r u ec = (cevs, Inl x) \<Longrightarrow>
   after_company f r u ec eco cid =
     (set_email_metafield f cid eco @ assign_address f r cid @ cevs,
      Failure 500 ''Internal server error'' (Some (ExnMessage x)))"
  by (simp add: after_company_def)

lemma resolve_customer_cases:
  obtains (raises) cevs x where "resolve_customer f r u ec = (cevs, Inl x)"
  | (completes) cevs customerId customerError where
      "resolve_customer f r u ec = (cevs, Inr (customerId, customerError))"
proof (cases "resolve_customer f r u ec")
  case (Pair cevs outcome)
  then show ?thesis
    by (cases outcome) (auto intro: raises completes)
qed

lemma existing_customer_trace:
  assumes "userEmail f = Some u" and "first_customer (customerCheckJson r) = Some c"
  shows "\<exists>evs. fst (action AdminReady now f r) =
           Call (GetCustomerByEmail (customerCheckQuery u)) #
           Call (UpdateCustomer (update_input f c)) # evs"
  using assms
  by (simp add: action_ready before_company_def update_existing_def
           split: prod.splits sum.splits)

lemma aggregate_result:
  "aggregate c k e =
     Result (truthy_opt c) c k
       (if truthy_opt c \<and> truthy_customer k then ''Company and customer created successfully!''
        else if truthy_opt c \<and> truthy_opt e then ''Company created successfully! Note: '' @ template e
        else if truthy_opt c then ''Company created successfully!''
        else ''Failed to create company.'') e"
  by (simp add: aggregate_def)

lemma run_early:
  assumes "userEmail f = Some u"
    and "create_or_reuse now f r (first_customer (customerCheckJson r)) (snd (resolve_company f r)) =
           (evc, Inl early)"
  shows "action AdminReady now f r = (before_company f r u @ evc, early)"
  using assms by (simp add: action_ready)

lemma run_raises:
  assumes "userEmail f = Some u"
    and "create_or_reuse now f r (first_customer (customerCheckJson r)) (snd (resolve_company f r)) =
           (evc, Inr companyId)"
    and "resolve_customer f r u (first_customer (customerCheckJson r)) = (cevs, Inl x)"
  shows "action AdminReady now f r =
           (before_company f r u @ evc @ set_email_metafield f companyId (snd (resolve_company f r)) @
            assign_address f r companyId @ cevs,
            Failure 500 ''Internal server error'' (Some (ExnMessage x)))"
  using assms by (simp add: action_ready after_company_raises)

lemma run_completes:
  assumes "userEmail f = Some u"
    and "create_or_reuse now f r (first_customer (customerCheckJson r)) (snd (resolve_company f r)) =
           (evc, Inr companyId)"
    and "resolve_customer f r u (first_customer (customerCheckJson r)) =
           (cevs, Inr (customerId, customerError))"
  shows "action AdminReady now f r =
           (before_company f r u @ evc @ set_email_metafield f companyId (snd (resolve_company f r)) @
            assign_address f r companyId @ cevs @
            link_customer r companyId customerId (first_customer (customerCheckJson r))
              (snd (resolve_company f r)),
            aggregate companyId customerId customerError)"
  using assms by (simp add: action_ready after_company_completes)

subsection \<open>The update of an existing customer\<close>

text \<open>
  C4. When the email-filtered query returns a customer, the second call of the run is the
  customer update for that customer, and its input carries the phone key exactly when
  the submitted phone is non-empty after trimming: then it is the trimmed phone;
  with an empty, blank or missing phone the key is left out (\<open>None\<close>), so the stored
  phone is not overwritten.
\<close>

theorem update_phone_only_when_submitted:
  assumes "userEmail f = Some u" and "first_customer (customerCheckJson r) = Some c"
  shows "\<exists>evs inp. fst (action AdminReady now f r) =
           Call (GetCustomerByEmail (customerCheckQuery u)) # Call (UpdateCustomer inp) # evs \<and>
           cu_id inp = cn_id c \<and>
           cu_phone inp =
             (case phone f of
                None \<Rightarrow> None
              | Some p \<Rightarrow> if trim p = [] then None else Some (trim p))"
proof -
  from existing_customer_trace[OF assms] obtain evs where
    "fst (action AdminReady now f r) =
       Call (GetCustomerByEmail (customerCheckQuery u)) #
       Call (UpdateCustomer (update_input f c)) # evs"
    by blast
  moreover have "cu_id (update_input f c) = cn_id c"
    by (simp add: update_input_def)
  moreover have "cu_phone (update_input f c) =
      (case phone f of None \<Rightarrow> None | Some p \<Rightarrow> if trim p = [] then None else Some (trim p))"
    by (simp add: update_input_def phone_input_eq)
  ultimately show ?thesis by blast
qed

theorem update_phone_only_when_submitted_witness:
  "userEmail submission = Some ''Jo@Acme.test'' \<and>
   first_customer (customerCheckJson directory) = Some jo \<and>
   (\<exists>evs inp. fst (action AdminReady 0 submission directory) =
      Call (GetCustomerByEmail (customerCheckQuery ''Jo@Acme.test'')) #
      Call (UpdateCustomer inp) # evs \<and>
      cu_id inp = ''gid://shopify/Customer/1'' \<and> cu_phone inp = Some ''555 0100'')"
proof -
  have h1: "userEmail submission = Some ''Jo@Acme.test''"
    by (simp add: submission_def)
  have h2: "first_customer (customerCheckJson directory) = Some jo"
    by (simp add: directory_def first_customer_def)
  have p: "trim '' 555 0100 '' = ''555 0100''"
    by (simp add: trim_def is_space_def)
  show ?thesis
    using update_phone_only_when_submitted[OF h1 h2, of 0] h1 h2
    by (simp add: submission_def jo_def p)
qed



subsection \<open>Evaluating a run\<close>

lemmas run_defs =
  action_def before_company_def after_company_def first_customer_def customerCheckQuery_def
  update_existing_def update_input_def merge_tags_def phone_input_def
  resolve_company_def has_email_metafield_def email_metafield_def
  create_or_reuse_def company_input_for_def set_email_metafield_def
  assign_address_def address_for_def set_tax_id_def tax_branch_def mutation_not_found_def
  resolve_customer_def create_input_def email_conflict_def fallback_search_def found_customer_def
  no_edges_def email_matches_def path_id_def id_string_def truthy_customer_def
  link_customer_def assign_location_permissions_def select_role_def aggregate_def
  when_id_def truthy_def truthy_opt_def or_empty_def template_def
  toLowerCase_def lower_char_def upper_letters_def lower_letters_def trim_def is_space_def
  str_includes_def sublist_Cons_right

subsection \<open>Result aggregation\<close>













subsection \<open>The calls of each step\<close>

lemma before_company_events:
  "ev \<in> set (before_company f r u) \<Longrightarrow>
     (\<exists>q. ev = Call (GetCustomerByEmail q)) \<or> (\<exists>inp. ev = Call (UpdateCustomer inp)) \<or>
     ev = Call GetCompaniesByEmailMetafield"
  by (auto simp: before_company_def update_existing_def resolve_company_def Let_def
           split: option.splits if_splits)


lemma fallback_search_events:
  "ev \<in> set (fst (fallback_search r u)) \<Longrightarrow>
     (\<exists>q. ev = Call (SearchCustomerByEmail q)) \<or> (\<exists>q. ev = Call (SearchCustomerByEmailPrefix q)) \<or>
     ev = Call GetAllRecentCustomers"
  by (auto simp: fallback_search_def Let_def split: if_splits)

lemma email_conflict_events:
  "ev \<in> set (fst (email_conflict f r u m)) \<Longrightarrow>
     (\<exists>q. ev = Call (SearchCustomerByEmail q)) \<or> (\<exists>q. ev = Call (SearchCustomerByEmailPrefix q)) \<or>
     ev = Call GetAllRecentCustomers \<or> (\<exists>inp. ev = Call (UpdateCustomer inp))"
proof -
  obtain evs out where fs: "fallback_search r u = (evs, out)"
    by (cases "fallback_search r u")
  assume "ev \<in> set (fst (email_conflict f r u m))"
  with fs have "ev \<in> set evs \<or> (\<exists>inp. ev = Call (UpdateCustomer inp))"
    by (auto simp: email_conflict_def split: sum.splits option.splits)
  with fallback_search_events[of ev r u] fs show ?thesis
    by auto
qed

lemma resolve_customer_conflict:
  assumes "cr_errors (customerJson r) = None"
    and "cr_userErrors (customerJson r) = Some (errorMessage # rest)"
    and "str_includes errorMessage ''Email has already been taken''"
  shows "resolve_customer f r u None =
     (Call (CreateCustomer (create_input f)) # fst (email_conflict f r u errorMessage),
      snd (email_conflict f r u errorMessage))"
  using assms by (simp add: resolve_customer_def split: prod.splits)

lemma resolve_customer_events:
  assumes "ev \<in> set (fst (resolve_customer f r u ec))"
  shows "(\<exists>i. ev = Call (CreateCustomer i)) \<or> (\<exists>q. ev = Call (SearchCustomerByEmail q)) \<or>
     (\<exists>q. ev = Call (SearchCustomerByEmailPrefix q)) \<or> ev = Call GetAllRecentCustomers \<or>
     (\<exists>inp. ev = Call (UpdateCustomer inp))"
proof (cases "\<exists>m ms. ec = None \<and> cr_errors (customerJson r) = None \<and>
    cr_userErrors (customerJson r) = Some (m # ms) \<and> str_includes m ''Email has already been taken''")
  case True
  then obtain m ms where c: "ec = None" "cr_errors (customerJson r) = None"
    "cr_userErrors (customerJson r) = Some (m # ms)" "str_includes m ''Email has already been taken''"
    by blast
  from assms have "ev = Call (CreateCustomer (create_input f)) \<or>
      ev \<in> set (fst (email_conflict f r u m))"
    unfolding c(1) resolve_customer_conflict[OF c(2-4)] by simp
  with email_conflict_events[of ev f r u m] show ?thesis
    by blast
next
  case False
  with assms show ?thesis
    by (auto simp: resolve_customer_def split: option.splits list.splits if_splits)
qed

lemma link_customer_events:
  "ev \<in> set (link_customer r cid cust ec eco) \<Longrightarrow>
     (\<exists>a b. ev = Call (AssignCustomerAsContact a b)) \<or> (\<exists>a b. ev = Call (AssignMainContact a b)) \<or>
     (\<exists>a. ev = Call (GetLocationRoles a)) \<or> (\<exists>a. ev = Call (GetCompanyRoles a)) \<or>
     (\<exists>a b c. ev = Call (AssignRole a b c)) \<or> (\<exists>a b. ev = Call (AssignNewCustomerAsContact a b))"
  by (auto simp: link_customer_def assign_location_permissions_def when_id_def
           split: option.splits if_splits)

subsection \<open>Reuse of an existing company\<close>

lemma set_email_metafield_reused [simp]: "set_email_metafield f cid (Some co) = []"
  by (simp add: set_email_metafield_def when_id_def split: option.splits)



lemma create_or_reuse_reused [simp]:
  "create_or_reuse now f r ec (Some co) = ([], Inr (Some (co_id co)))"
  by (simp add: create_or_reuse_def)



subsection \<open>Error responses\<close>

lemma prelude_of_samples:
  "prelude_of storefront = AdminReady \<and>
   prelude_of (malformed_referer\<lparr>refererHeader := RefererHost ''acme-wholesale.myshopify.com''\<rparr>) =
     AdminReady \<and>
   prelude_of (malformed_referer\<lparr>refererHeader := RefererHost ''acme-wholesale.myshopify.com'',
      sessions := [''offline_acme-retail'']\<rparr>) = SessionMissing \<and>
   prelude_of (malformed_referer\<lparr>refererHeader := NoReferer\<rparr>) = ShopMissing \<and>
   prelude_of malformed_referer = PreludeRaised InvalidURL"
  by (simp add: prelude_of_def resolve_shop_def storefront_def malformed_referer_def
        truthy_opt_def truthy_def or_empty_def str_includes_def sublist_Cons_right)

lemma prelude_raises:
  "prelude_of env = PreludeRaised x \<longleftrightarrow>
     x = InvalidURL \<and> \<not> truthy_opt (proxyShop env) \<and> \<not> truthy_opt (urlShop env) \<and>
     \<not> truthy_opt (formShop env) \<and> refererHeader env = MalformedReferer"
  by (auto simp: prelude_of_def resolve_shop_def split: referer.splits if_splits sum.splits)




lemma filter_matching_subset:
  "filter_matching u es = Inr ms \<Longrightarrow> set ms \<subseteq> set es"
  by (induction es arbitrary: ms) (auto split: option.splits sum.splits if_splits)

lemma fallback_search_calls:
  "fst (fallback_search r u) =
     Call (SearchCustomerByEmail (trim u)) #
     (if no_edges (fallbackSearchJson1 r)
      then Call (SearchCustomerByEmailPrefix (''email:'' @ trim u)) #
           (if no_edges (fallbackSearchJson2 r) then [Call GetAllRecentCustomers] else [])
      else [])"
  by (simp add: fallback_search_def Let_def)


lemma fallback_search_result:
  "snd (fallback_search r u) = Inr (Some es) \<Longrightarrow> set es \<subseteq> set (searched r)"
  by (auto simp: fallback_search_def Let_def searched_def
           split: if_splits option.splits sum.splits dest: filter_matching_subset)



lemma filter_fallback_search [simp]:
  "filter mutation_event (fst (fallback_search r u)) = []"
  by (simp add: fallback_search_calls)

lemma create_or_reuse_fails:
  assumes "cc_errors (companyJson r) \<noteq> None \<or> (\<exists>e es. cc_userErrors (companyJson r) = Some (e # es))"
  shows "\<exists>evc early. create_or_reuse now f r ec None = (evc, Inl early) \<and>
           (\<exists>st err det. early = Failure st err det)"
  using assms by (auto simp: create_or_reuse_def split: option.splits list.splits)






subsection \<open>The tax step\<close>

lemma tax_branch_unavailable:
  assumes "tx_errors j = Some errs" and "msg \<in> set errs"
    and "str_includes msg ''companyLocationTaxSettingsUpdate''"
    and "str_includes msg (''doesn't exist on type 'Mutation'' @ [CHR 0x27])"
  shows "tax_branch j = TaxUnavailableWarned"
  using assms by (auto simp: tax_branch_def mutation_not_found_def list_ex_iff)

lemma tax_in_set_tax_id:
  assumes "ev \<in> set (set_tax_id f r locationId)"
  shows "\<exists>t. taxId f = Some t \<and> trim t \<noteq> [] \<and>
           (\<forall>j. set_tax_id f (r\<lparr>taxUpdateJson := j\<rparr>) locationId =
              [Call (SetCompanyLocationTaxId locationId (trim t)), TaxLog (tax_branch j)])"
  using assms by (auto simp: set_tax_id_def truthy_def split: option.splits if_splits)

lemma tax_in_assign_address:
  assumes "Call (SetCompanyLocationTaxId loc t) \<in> set (assign_address f r companyId)"
  shows "\<exists>cid evs. companyId = Some cid \<and> cid \<noteq> [] \<and>
           (\<forall>j. assign_address f (r\<lparr>taxUpdateJson := j\<rparr>) companyId =
              evs @ [Call (SetCompanyLocationTaxId loc t), TaxLog (tax_branch j)])"
proof -
  from assms obtain cid where cid: "companyId = Some cid" "cid \<noteq> []"
    by (auto simp: assign_address_def when_id_def truthy_def split: option.splits if_splits)
  from assms cid obtain a1 where a1: "address1 f = Some a1" "truthy a1" "truthy (trim a1)"
    by (auto simp: assign_address_def when_id_def truthy_def split: option.splits if_splits)
  from assms cid a1 obtain l where l: "companyLocationJson r = Some l" "truthy l"
    by (auto simp: assign_address_def when_id_def truthy_def split: option.splits if_splits)
  let ?pre = "Call (GetCompanyLocations cid) #
       (let locationNameFromForm = trim (or_empty (location f))
        in if truthy locationNameFromForm
           then [Call (UpdateCompanyLocationName l locationNameFromForm)]
           else []) @
       [Call (CompanyLocationAssignAddress l (address_for f a1))]"
  have shape: "assign_address f (r\<lparr>taxUpdateJson := j\<rparr>) companyId =
      ?pre @ set_tax_id f (r\<lparr>taxUpdateJson := j\<rparr>) l" for j
    using cid a1 l by (simp add: assign_address_def when_id_def truthy_def Let_def)
  from shape[of "taxUpdateJson r"] have "assign_address f r companyId = ?pre @ set_tax_id f r l"
    by simp
  with assms have "Call (SetCompanyLocationTaxId loc t) \<in> set (set_tax_id f r l)"
    by (auto simp: Let_def split: if_splits)
  from tax_in_set_tax_id[OF this] obtain t' where t': "taxId f = Some t'" "trim t' \<noteq> []"
    "\<And>j. set_tax_id f (r\<lparr>taxUpdateJson := j\<rparr>) l =
              [Call (SetCompanyLocationTaxId l (trim t')), TaxLog (tax_branch j)]"
    by blast
  from t'(3)[of "taxUpdateJson r"] \<open>Call (SetCompanyLocationTaxId loc t) \<in> set (set_tax_id f r l)\<close>
  have "loc = l" "t = trim t'" by auto
  with shape t'(3) cid show ?thesis by auto
qed

lemma tax_frame [simp]:
  "before_company f (r\<lparr>taxUpdateJson := j\<rparr>) u = before_company f r u"
  "resolve_company f (r\<lparr>taxUpdateJson := j\<rparr>) = resolve_company f r"
  "create_or_reuse now f (r\<lparr>taxUpdateJson := j\<rparr>) ec eco = create_or_reuse now f r ec eco"
  "resolve_customer f (r\<lparr>taxUpdateJson := j\<rparr>) u ec = resolve_customer f r u ec"
  "link_customer (r\<lparr>taxUpdateJson := j\<rparr>) cid cust ec eco = link_customer r cid cust ec eco"
  by (simp_all add: before_company_def resolve_company_def create_or_reuse_def resolve_customer_def
        email_conflict_def fallback_search_def link_customer_def assign_location_permissions_def
        when_id_def Let_def
      cong: if_cong option.case_cong list.case_cong prod.case_cong sum.case_cong)

lemma tax_in_action:
  assumes "Call (SetCompanyLocationTaxId loc t) \<in> set (fst (action pre now f r))"
  shows "\<exists>u evc companyId. pre = AdminReady \<and> userEmail f = Some u \<and>
           create_or_reuse now f r (first_customer (customerCheckJson r)) (snd (resolve_company f r)) =
             (evc, Inr companyId) \<and>
           Call (SetCompanyLocationTaxId loc t) \<in> set (assign_address f r companyId)"
proof (cases pre)
  case AdminReady
  show ?thesis
  proof (cases "userEmail f")
    case None
    with AdminReady assms show ?thesis by (simp add: action_def)
  next
    case (Some u)
    let ?ec = "first_customer (customerCheckJson r)"
    let ?eco = "snd (resolve_company f r)"
    obtain evc res where cr: "create_or_reuse now f r ?ec ?eco = (evc, res)"
      by (cases "create_or_reuse now f r ?ec ?eco")
    have evc: "Call (SetCompanyLocationTaxId loc t) \<notin> set evc"
      using cr by (auto simp: create_or_reuse_def split: option.splits list.splits)
    have meta: "Call (SetCompanyLocationTaxId loc t) \<notin> set (set_email_metafield f cid ?eco)" for cid
      by (auto simp: set_email_metafield_def when_id_def split: option.splits if_splits)
    show ?thesis
    proof (cases res)
      case (Inl early)
      from run_early[OF Some cr[unfolded Inl]] assms AdminReady evc show ?thesis
        by (auto dest: before_company_events)
    next
      case (Inr cid)
      show ?thesis
      proof (cases rule: resolve_customer_cases[of f r u ?ec])
        case (raises cevs x)
        have cevs: "ev \<in> set cevs \<Longrightarrow> ev \<in> set (fst (resolve_customer f r u ?ec))" for ev
          using raises by simp
        from run_raises[OF Some cr[unfolded Inr] raises] assms AdminReady evc meta
        have "Call (SetCompanyLocationTaxId loc t) \<in> set (assign_address f r cid)"
          by (auto dest: before_company_events resolve_customer_events[OF cevs])
        with AdminReady Some cr Inr show ?thesis by blast
      next
        case (completes cevs k e)
        have cevs: "ev \<in> set cevs \<Longrightarrow> ev \<in> set (fst (resolve_customer f r u ?ec))" for ev
          using completes by simp
        from run_completes[OF Some cr[unfolded Inr] completes] assms AdminReady evc meta
        have "Call (SetCompanyLocationTaxId loc t) \<in> set (assign_address f r cid)"
          by (auto dest: before_company_events resolve_customer_events[OF cevs] link_customer_events)
        with AdminReady Some cr Inr show ?thesis by blast
      qed
    qed
  qed
qed (use assms in \<open>simp_all add: action_def\<close>)

lemma resolve_customer_existing:
  "resolve_customer f r u (Some c) = ([], Inr (CustomerId (cn_id c), None))"
  by (simp add: resolve_customer_def)

lemma resolve_customer_new:
  "\<exists>rest. fst (resolve_customer f r u None) = Call (CreateCustomer (create_input f)) # rest"
  by (simp add: resolve_customer_def split: option.splits list.splits prod.splits)

lemma resolve_customer_created:
  assumes "cr_errors (customerJson r) = None"
    and "cr_userErrors (customerJson r) = None \<or> cr_userErrors (customerJson r) = Some []"
  shows "resolve_customer f r u None =
           ([Call (CreateCustomer (create_input f))],
            Inr (path_id (cr_customer_id (customerJson r)), None))"
  using assms by (auto simp: resolve_customer_def)

text \<open>
  C8, as stated, fails in one point: the customer id is not always populated. With the
  tax mutation unknown to the API and the creation of the customer refused for its
  phone, the handler logs the warning branch and answers \<^verbatim>\<open>success\<close> true with the
  company id, a \<^verbatim>\<open>null\<close> customer id and the phone error, which is not a tax error, in
  the message and in \<^verbatim>\<open>customerError\<close>.
\<close>

theorem tax_missing_customer_refused:
  "TaxLog TaxUnavailableWarned \<in>
     set (fst (action AdminReady 0 submission tax_unsupported_phone_rejected)) \<and>
   snd (action AdminReady 0 submission tax_unsupported_phone_rejected) =
     Result True (Some ''gid://shopify/Company/7'') CustomerNull
       ''Company created successfully! Note: Phone is invalid'' (Some ''Phone is invalid'')"
  by (simp add: run_defs submission_def tax_unsupported_phone_rejected_def phone_rejected_def
        directory_def accepted_def jo_def)

text \<open>
  C8, amended. When the tax mutation has been sent and its reply carries a GraphQL error
  naming \<^verbatim>\<open>companyLocationTaxSettingsUpdate\<close> and saying it
  \<^verbatim>\<open>doesn't exist on type 'Mutation'\<close>, the handler logs the warning branch and goes on
  with the customer step and the linking step, whose calls follow the log at once. When
  the customer step completes, the response is the result object with \<^verbatim>\<open>success\<close> true
  and the company id; the customer id and \<^verbatim>\<open>customerError\<close> are those of the customer
  step: the id of the customer that existed, or the one \<^verbatim>\<open>customerCreate\<close> returned for a
  new customer. The message is built from these two alone, and events and response are
  those of the run in which the tax update succeeded, the logged branch apart: nothing
  of the tax step reaches the response.
\<close>

theorem tax_mutation_missing_is_tolerated:
  assumes "Call (SetCompanyLocationTaxId loc t) \<in> set (fst (action pre now f r))"
    and "tx_errors (taxUpdateJson r) = Some errs" and "msg \<in> set errs"
    and "str_includes msg ''companyLocationTaxSettingsUpdate''"
    and "str_includes msg (''doesn't exist on type 'Mutation'' @ [CHR 0x27])"
    and "userEmail f = Some u"
    and "resolve_customer f r u (first_customer (customerCheckJson r)) =
           (cevs, Inr (customerId, customerError))"
  shows "\<exists>evs cid message.
           fst (action pre now f r) =
             evs @ [Call (SetCompanyLocationTaxId loc t), TaxLog TaxUnavailableWarned] @ cevs @
             link_customer r (Some cid) customerId (first_customer (customerCheckJson r))
               (snd (resolve_company f r)) \<and>
           snd (action pre now f r) = Result True (Some cid) customerId message customerError \<and>
           cid \<noteq> [] \<and>
           message =
             (if truthy_customer customerId then ''Company and customer created successfully!''
              else if truthy_opt customerError
                   then ''Company created successfully! Note: '' @ template customerError
                   else ''Company created successfully!'') \<and>
           action pre now f (r\<lparr>taxUpdateJson := \<lparr>tx_errors = None, tx_userErrors = None\<rparr>\<rparr>) =
             (evs @ [Call (SetCompanyLocationTaxId loc t), TaxLog TaxSetLogged] @ cevs @
              link_customer r (Some cid) customerId (first_customer (customerCheckJson r))
                (snd (resolve_company f r)),
              Result True (Some cid) customerId message customerError) \<and>
           (\<forall>c. first_customer (customerCheckJson r) = Some c \<longrightarrow>
              cevs = [] \<and> customerId = CustomerId (cn_id c) \<and> customerError = None) \<and>
           (first_customer (customerCheckJson r) = None \<longrightarrow>
              (\<exists>rest. cevs = Call (CreateCustomer (create_input f)) # rest)) \<and>
           (first_customer (customerCheckJson r) = None \<and> cr_errors (customerJson r) = None \<and>
            (cr_userErrors (customerJson r) = None \<or> cr_userErrors (customerJson r) = Some []) \<longrightarrow>
              customerId = path_id (cr_customer_id (customerJson r)) \<and> customerError = None)"
proof -
  let ?ec = "first_customer (customerCheckJson r)"
  let ?eco = "snd (resolve_company f r)"
  let ?ok = "\<lparr>tx_errors = None, tx_userErrors = None\<rparr>"
  from tax_in_action[OF assms(1)] assms(6) obtain evc companyId where
    pre: "pre = AdminReady" and
    cr: "create_or_reuse now f r ?ec ?eco = (evc, Inr companyId)" and
    inaddr: "Call (SetCompanyLocationTaxId loc t) \<in> set (assign_address f r companyId)"
    by auto
  from tax_in_assign_address[OF inaddr] obtain cid addr where
    cid: "companyId = Some cid" "cid \<noteq> []" and
    addr: "\<And>j. assign_address f (r\<lparr>taxUpdateJson := j\<rparr>) companyId =
              addr @ [Call (SetCompanyLocationTaxId loc t), TaxLog (tax_branch j)]"
    by blast
  note cr' = cr[unfolded cid(1)] and addr' = addr[unfolded cid(1)]
  let ?evs = "before_company f r u @ evc @ set_email_metafield f (Some cid) ?eco @ addr"
  let ?link = "link_customer r (Some cid) customerId ?ec ?eco"
  let ?message = "if truthy_customer customerId then ''Company and customer created successfully!''
              else if truthy_opt customerError
                   then ''Company created successfully! Note: '' @ template customerError
                   else ''Company created successfully!''"
  have agg: "aggregate (Some cid) customerId customerError =
      Result True (Some cid) customerId ?message customerError"
    using cid(2) by (simp add: aggregate_result truthy_opt_def truthy_def)
  have run: "action pre now f (r\<lparr>taxUpdateJson := j\<rparr>) =
      (?evs @ [Call (SetCompanyLocationTaxId loc t), TaxLog (tax_branch j)] @ cevs @ ?link,
       Result True (Some cid) customerId ?message customerError)" for j
  proof -
    have "action AdminReady now f (r\<lparr>taxUpdateJson := j\<rparr>) =
        (before_company f r u @ evc @ set_email_metafield f (Some cid) ?eco @
         assign_address f (r\<lparr>taxUpdateJson := j\<rparr>) (Some cid) @ cevs @
         link_customer r (Some cid) customerId ?ec ?eco,
         aggregate (Some cid) customerId customerError)"
      using run_completes[of f u now "r\<lparr>taxUpdateJson := j\<rparr>" evc "Some cid" cevs customerId customerError]
        assms(6,7) cr'
      by simp
    then show ?thesis
      by (simp only: pre addr' agg append_assoc)
  qed
  have here: "tax_branch (taxUpdateJson r) = TaxUnavailableWarned"
    by (rule tax_branch_unavailable[OF assms(2-5)])
  have there: "tax_branch ?ok = TaxSetLogged"
    by (simp add: tax_branch_def)
  from run[of "taxUpdateJson r"] here
  have 1: "fst (action pre now f r) =
             ?evs @ [Call (SetCompanyLocationTaxId loc t), TaxLog TaxUnavailableWarned] @ cevs @ ?link"
    and 2: "snd (action pre now f r) = Result True (Some cid) customerId ?message customerError"
    by simp_all
  from run[of ?ok] there
  have 3: "action pre now f (r\<lparr>taxUpdateJson := ?ok\<rparr>) =
             (?evs @ [Call (SetCompanyLocationTaxId loc t), TaxLog TaxSetLogged] @ cevs @ ?link,
              Result True (Some cid) customerId ?message customerError)"
    by simp
  have 4: "\<forall>c. ?ec = Some c \<longrightarrow>
              cevs = [] \<and> customerId = CustomerId (cn_id c) \<and> customerError = None"
    using assms(7) by (auto simp: resolve_customer_existing)
  have 5: "?ec = None \<longrightarrow> (\<exists>rest. cevs = Call (CreateCustomer (create_input f)) # rest)"
    using assms(7) resolve_customer_new[of f r u] by auto
  have 6: "?ec = None \<and> cr_errors (customerJson r) = None \<and>
            (cr_userErrors (customerJson r) = None \<or> cr_userErrors (customerJson r) = Some []) \<longrightarrow>
              customerId = path_id (cr_customer_id (customerJson r)) \<and> customerError = None"
    using assms(7) resolve_customer_created[of r f u] by auto
  have "fst (action pre now f r) =
             ?evs @ [Call (SetCompanyLocationTaxId loc t), TaxLog TaxUnavailableWarned] @ cevs @ ?link \<and>
           snd (action pre now f r) = Result True (Some cid) customerId ?message customerError \<and>
           cid \<noteq> [] \<and> ?message = ?message \<and>
           action pre now f (r\<lparr>taxUpdateJson := ?ok\<rparr>) =
             (?evs @ [Call (SetCompanyLocationTaxId loc t), TaxLog TaxSetLogged] @ cevs @ ?link,
              Result True (Some cid) customerId ?message customerError) \<and>
           (\<forall>c. ?ec = Some c \<longrightarrow>
              cevs = [] \<and> customerId = CustomerId (cn_id c) \<and> customerError = None) \<and>
           (?ec = None \<longrightarrow> (\<exists>rest. cevs = Call (CreateCustomer (create_input f)) # rest)) \<and>
           (?ec = None \<and> cr_errors (customerJson r) = None \<and>
            (cr_userErrors (customerJson r) = None \<or> cr_userErrors (customerJson r) = Some []) \<longrightarrow>
              customerId = path_id (cr_customer_id (customerJson r)) \<and> customerError = None)"
    by (intro conjI refl) (fact 1 2 3 4 5 6 cid(2))+
  then show ?thesis
    by (intro exI[of _ ?evs] exI[of _ cid] exI[of _ ?message])
qed

theorem tax_mutation_missing_is_tolerated_witness:
  "Call (SetCompanyLocationTaxId ''gid://shopify/CompanyLocation/8'' ''GB123'') \<in>
     set (fst (action AdminReady 0 submission tax_unsupported)) \<and>
   (\<exists>evs. fst (action AdminReady 0 submission tax_unsupported) =
      evs @ [Call (SetCompanyLocationTaxId ''gid://shopify/CompanyLocation/8'' ''GB123''),
             TaxLog TaxUnavailableWarned] @
      link_customer tax_unsupported (Some ''gid://shopify/Company/7'')
        (CustomerId ''gid://shopify/Customer/1'') (Some jo) None) \<and>
   snd (action AdminReady 0 submission tax_unsupported) =
     Result True (Some ''gid://shopify/Company/7'') (CustomerId ''gid://shopify/Customer/1'')
       ''Company and customer created successfully!'' None"
proof -
  let ?msg = "''Field 'companyLocationTaxSettingsUpdate' doesn't exist on type 'Mutation'' @ [CHR 0x27]"
  have sent: "Call (SetCompanyLocationTaxId ''gid://shopify/CompanyLocation/8'' ''GB123'') \<in>
     set (fst (action AdminReady 0 submission tax_unsupported))"
    by (simp add: run_defs submission_def tax_unsupported_def directory_def accepted_def jo_def)
  have run: "snd (action AdminReady 0 submission tax_unsupported) =
     Result True (Some ''gid://shopify/Company/7'') (CustomerId ''gid://shopify/Customer/1'')
       ''Company and customer created successfully!'' None"
    by (simp add: run_defs submission_def tax_unsupported_def directory_def accepted_def jo_def)
  have h: "tx_errors (taxUpdateJson tax_unsupported) = Some [?msg]" "?msg \<in> set [?msg]"
    "str_includes ?msg ''companyLocationTaxSettingsUpdate''"
    "str_includes ?msg (''doesn't exist on type 'Mutation'' @ [CHR 0x27])"
    by (simp_all add: tax_unsupported_def str_includes_def sublist_Cons_right)
  have u: "userEmail submission = Some ''Jo@Acme.test''"
    by (simp add: submission_def)
  have ec: "first_customer (customerCheckJson tax_unsupported) = Some jo"
    by (simp add: tax_unsupported_def directory_def first_customer_def)
  have eco: "snd (resolve_company submission tax_unsupported) = None"
    by (simp add: run_defs submission_def tax_unsupported_def directory_def)
  have rc: "resolve_customer submission tax_unsupported ''Jo@Acme.test''
       (first_customer (customerCheckJson tax_unsupported)) =
     ([], Inr (CustomerId ''gid://shopify/Customer/1'', None))"
    by (simp add: ec resolve_customer_def jo_def)
  from tax_mutation_missing_is_tolerated[OF sent h u rc] run
  have "\<exists>evs. fst (action AdminReady 0 submission tax_unsupported) =
      evs @ [Call (SetCompanyLocationTaxId ''gid://shopify/CompanyLocation/8'' ''GB123''),
             TaxLog TaxUnavailableWarned] @
      link_customer tax_unsupported (Some ''gid://shopify/Company/7'')
        (CustomerId ''gid://shopify/Customer/1'') (Some jo) None"
    unfolding ec eco by auto
  with sent run show ?thesis
    by blast
qed

subsection \<open>Linking an existing customer\<close>








lemma link_frame [simp]:
  "before_company f (r\<lparr>assignCustomerAsContactJson := ac, assignMainJson := am, locationData := ld,
      rolesData := rd, roleResult := rr\<rparr>) u = before_company f r u"
  "resolve_company f (r\<lparr>assignCustomerAsContactJson := ac, assignMainJson := am, locationData := ld,
      rolesData := rd, roleResult := rr\<rparr>) = resolve_company f r"
  "create_or_reuse now f (r\<lparr>assignCustomerAsContactJson := ac, assignMainJson := am, locationData := ld,
      rolesData := rd, roleResult := rr\<rparr>) ec eco = create_or_reuse now f r ec eco"
  "resolve_customer f (r\<lparr>assignCustomerAsContactJson := ac, assignMainJson := am, locationData := ld,
      rolesData := rd, roleResult := rr\<rparr>) u ec = resolve_customer f r u ec"
  by (simp_all add: before_company_def resolve_company_def create_or_reuse_def resolve_customer_def
        email_conflict_def fallback_search_def when_id_def Let_def
      cong: if_cong option.case_cong list.case_cong prod.case_cong sum.case_cong)





subsection \<open>The email-conflict path\<close>

lemma find_matching_found:
  "find_matching u es = Inr (Some c) \<Longrightarrow>
     c \<in> set es \<and> (\<exists>email. cn_email c = Some email \<and> email_matches u email)"
  by (induction es) (auto split: option.splits if_splits)

lemma find_matching_none:
  "\<forall>c\<in>set es. \<exists>email. cn_email c = Some email \<and> \<not> email_matches u email \<Longrightarrow>
     find_matching u es = Inr None"
  by (induction es) auto

lemma filter_matching_none:
  "\<forall>c\<in>set es. \<exists>email. cn_email c = Some email \<and> \<not> email_matches u email \<Longrightarrow>
     filter_matching u es = Inr []"
  by (induction es) auto

text \<open>
  In the email-conflict block a customer update is sent only for a customer of the
  search replies whose email passes the comparison.
\<close>

lemma fallback_update_only_for_match:
  assumes "Call (UpdateCustomer inp) \<in> set (fst (email_conflict f r u m))"
  shows "\<exists>c\<in>set (searched r). \<exists>email. cn_email c = Some email \<and>
           toLowerCase email = trim (toLowerCase u) \<and> inp = update_input f c"
proof -
  obtain evs out where fs: "fallback_search r u = (evs, out)"
    by (cases "fallback_search r u")
  have no: "Call (UpdateCustomer inp) \<notin> set evs"
    using fallback_search_events[of "Call (UpdateCustomer inp)" r u] fs by auto
  from assms fs no obtain es c where out: "out = Inr (Some es)"
    and fm: "find_matching u es = Inr (Some c)" and inp: "inp = update_input f c"
    by (auto simp: email_conflict_def found_customer_def split: sum.splits option.splits)
  from fallback_search_result[of r u es] fs out have "set es \<subseteq> set (searched r)"
    by simp
  with find_matching_found[OF fm] inp show ?thesis
    by (auto simp: email_matches_def)
qed

text \<open>
  When every customer of the search replies has an email and none passes the
  comparison, the block sends the searches alone and records the creation error.
\<close>

lemma fallback_without_match:
  assumes "\<forall>c\<in>set (searched r). \<exists>email. cn_email c = Some email \<and>
             toLowerCase email \<noteq> trim (toLowerCase u)"
  shows "email_conflict f r u m = (fst (fallback_search r u), Inr (CustomerNull, Some m))"
proof -
  have none: "\<forall>c\<in>set es. \<exists>email. cn_email c = Some email \<and> \<not> email_matches u email"
    if "set es \<subseteq> set (searched r)" for es
    using assms that by (auto simp: email_matches_def)
  have scan: "filter_matching u es = Inr []" if "allCustomersJson r = Some es" for es
    using that by (intro filter_matching_none none) (auto simp: searched_def)
  obtain evs out where fs: "fallback_search r u = (evs, out)"
    by (cases "fallback_search r u")
  have "\<exists>j. out = Inr j"
    using fs scan by (auto simp: fallback_search_def Let_def split: if_splits option.splits)
  then obtain j where out: "out = Inr j" by blast
  have "found_customer u j = Inr None"
  proof (cases j)
    case None
    then show ?thesis by (simp add: found_customer_def)
  next
    case (Some es)
    from fallback_search_result[of r u es] fs out Some have "set es \<subseteq> set (searched r)"
      by simp
    from find_matching_none[OF none[OF this]] Some show ?thesis
      by (simp add: found_customer_def)
  qed
  with fs out show ?thesis
    by (simp add: email_conflict_def)
qed

text \<open>
  When the comparison finds a customer, the block sends for it the update the
  existing-customer path sends (\<open>update_input\<close>), and the reply of that update decides
  between the customer's id and the message of its first userError.
\<close>

lemma fallback_found:
  assumes "snd (fallback_search r u) = Inr j" and "found_customer u j = Inr (Some c)"
  shows "email_conflict f r u m =
     (fst (fallback_search r u) @ [Call (UpdateCustomer (update_input f c))],
      (case userErrors (fallbackUpdateJson r) of
         Some (m' # ms) \<Rightarrow> Inr (CustomerNull, Some m')
       | _ \<Rightarrow> Inr (CustomerId (cn_id c), None)))"
  using assms by (cases "fallback_search r u") (simp add: email_conflict_def)

text \<open>
  C5. The handler does not do what the claim says when the taken email is not the first
  userError. It reads the message of \<^verbatim>\<open>userErrors[0]\<close> only (line 1691), although the
  comment that follows states the intent, to find and update the existing customer if
  the email already exists. With the userErrors \<^verbatim>\<open>Phone is invalid\<close> and
  \<^verbatim>\<open>Email has already been taken\<close>, in this order, no search is made, no customer is
  updated, and \<^verbatim>\<open>customerError\<close> is the phone error, although the search by email would
  have found the registrant. With the same two userErrors in the other order the search
  is made, the registrant is found and updated, and \<^verbatim>\<open>customerError\<close> is null.
\<close>

theorem taken_email_not_first_starts_no_search:
  "action AdminReady 0 submission two_errors =
     ([Call (GetCustomerByEmail (''email:'' @ [CHR 0x22] @ ''jo@acme.test'' @ [CHR 0x22])),
       Call GetCompaniesByEmailMetafield,
       Call (CreateCompany
         \<lparr>ci_name = Some ''Acme'', ci_externalId = 0,
          ci_note = ''Created from Wholesale Registration form'',
          ci_companyContact =
            Some \<lparr>ct_email = Some ''Jo@Acme.test'', ct_firstName = Some ''Jo'',
                  ct_lastName = Some ''Doe''\<rparr>\<rparr>),
       Call (SetCompanyEmailMetafield
         \<lparr>mi_ownerId = ''gid://shopify/Company/7'', mi_namespace = ''custom'',
          mi_key = ''companyEmail'', mi_value = ''Info@Acme.test'',
          mi_type = ''single_line_text_field''\<rparr>),
       Call (GetCompanyLocations ''gid://shopify/Company/7''),
       Call (UpdateCompanyLocationName ''gid://shopify/CompanyLocation/8'' ''Head office''),
       Call (CompanyLocationAssignAddress ''gid://shopify/CompanyLocation/8''
         \<lparr>ad_address1 = ''1 Main St'', ad_city = ''Leeds'', ad_countryCode = ''IN'',
          ad_zoneCode = [], ad_zip = [], ad_address2 = None\<rparr>),
       Call (SetCompanyLocationTaxId ''gid://shopify/CompanyLocation/8'' ''GB123''),
       TaxLog TaxSetLogged,
       Call (CreateCustomer
         \<lparr>cn_firstName = Some ''Jo'', cn_lastName = Some ''Doe'',
          cn_userEmail = Some ''Jo@Acme.test'', cn_new_tags = [''wholesale''],
          cn_phone = Some ''555 0100''\<rparr>)],
      Result True (Some ''gid://shopify/Company/7'') CustomerNull
        ''Company created successfully! Note: Phone is invalid'' (Some ''Phone is invalid'')) \<and>
   resolve_customer submission
     (two_errors\<lparr>customerJson :=
        \<lparr>cr_errors = None,
         cr_userErrors = Some [''Email has already been taken'', ''Phone is invalid''],
         cr_customer_id = None\<rparr>\<rparr>) ''Jo@Acme.test'' None =
     ([Call (CreateCustomer
         \<lparr>cn_firstName = Some ''Jo'', cn_lastName = Some ''Doe'',
          cn_userEmail = Some ''Jo@Acme.test'', cn_new_tags = [''wholesale''],
          cn_phone = Some ''555 0100''\<rparr>),
       Call (SearchCustomerByEmail ''Jo@Acme.test''),
       Call (UpdateCustomer
         \<lparr>cu_id = ''gid://shopify/Customer/1'', cu_firstName = Some ''Jo'',
          cu_lastName = Some ''Doe'', cu_tags = [''vip'', ''wholesale''],
          cu_phone = Some ''555 0100''\<rparr>)],
      Inr (CustomerId ''gid://shopify/Customer/1'', None))"
  by (simp add: run_defs submission_def two_errors_def directory_def accepted_def jo_def)

text \<open>
  C10. The handler does not do what the claim says when a customer of the examined reply
  has no email. The comparison reads \<^verbatim>\<open>edge.node.email.toLowerCase()\<close> without a guard
  (lines 1776 and 1797), where every other read of a reply goes through \<^verbatim>\<open>?.\<close>. The
  prefixed search returns a customer without email and a customer whose email differs
  from the submitted one: no customer passes the comparison, yet \<^verbatim>\<open>customerError\<close> is not
  recorded; the read raises, and the handler answers with status 500 after the company
  and the customer creation have been sent. Without the first of the two customers the
  handler does what the claim says: no update, and the creation error as
  \<^verbatim>\<open>customerError\<close>.
\<close>

theorem comparison_raises_on_customer_without_email:
  "cn_email ghost = None \<and> cn_email mojo = Some ''mojo@acme.test'' \<and>
   \<not> email_matches ''Jo@Acme.test'' ''mojo@acme.test'' \<and>
   action AdminReady 0 submission email_taken_no_email =
     ([Call (GetCustomerByEmail (''email:'' @ [CHR 0x22] @ ''jo@acme.test'' @ [CHR 0x22])),
       Call GetCompaniesByEmailMetafield,
       Call (CreateCompany
         \<lparr>ci_name = Some ''Acme'', ci_externalId = 0,
          ci_note = ''Created from Wholesale Registration form'',
          ci_companyContact =
            Some \<lparr>ct_email = Some ''Jo@Acme.test'', ct_firstName = Some ''Jo'',
                  ct_lastName = Some ''Doe''\<rparr>\<rparr>),
       Call (SetCompanyEmailMetafield
         \<lparr>mi_ownerId = ''gid://shopify/Company/7'', mi_namespace = ''custom'',
          mi_key = ''companyEmail'', mi_value = ''Info@Acme.test'',
          mi_type = ''single_line_text_field''\<rparr>),
       Call (GetCompanyLocations ''gid://shopify/Company/7''),
       Call (UpdateCompanyLocationName ''gid://shopify/CompanyLocation/8'' ''Head office''),
       Call (CompanyLocationAssignAddress ''gid://shopify/CompanyLocation/8''
         \<lparr>ad_address1 = ''1 Main St'', ad_city = ''Leeds'', ad_countryCode = ''IN'',
          ad_zoneCode = [], ad_zip = [], ad_address2 = None\<rparr>),
       Call (SetCompanyLocationTaxId ''gid://shopify/CompanyLocation/8'' ''GB123''),
       TaxLog TaxSetLogged,
       Call (CreateCustomer
         \<lparr>cn_firstName = Some ''Jo'', cn_lastName = Some ''Doe'',
          cn_userEmail = Some ''Jo@Acme.test'', cn_new_tags = [''wholesale''],
          cn_phone = Some ''555 0100''\<rparr>),
       Call (SearchCustomerByEmail ''Jo@Acme.test''),
       Call (SearchCustomerByEmailPrefix ''email:Jo@Acme.test'')],
      Failure 500 ''Internal server error'' (Some (ExnMessage PropertyOfNull))) \<and>
   resolve_customer submission (email_taken_no_email\<lparr>fallbackSearchJson2 := Some [mojo]\<rparr>)
     ''Jo@Acme.test'' None =
     ([Call (CreateCustomer
         \<lparr>cn_firstName = Some ''Jo'', cn_lastName = Some ''Doe'',
          cn_userEmail = Some ''Jo@Acme.test'', cn_new_tags = [''wholesale''],
          cn_phone = Some ''555 0100''\<rparr>),
       Call (SearchCustomerByEmail ''Jo@Acme.test''),
       Call (SearchCustomerByEmailPrefix ''email:Jo@Acme.test'')],
      Inr (CustomerNull, Some ''Email has already been taken''))"
  by (simp add: run_defs submission_def email_taken_no_email_def directory_def accepted_def
        jo_def mojo_def ghost_def)

subsection \<open>The first lookup\<close>

text \<open>
  C2. The handler does not do what the claim says. The first node of the reply to the
  email-filtered query is taken as the existing customer without comparing its email
  with the submitted one: when the reply lists \<^verbatim>\<open>mojo@acme.test\<close> before
  \<^verbatim>\<open>jo@acme.test\<close>, a submission for \<^verbatim>\<open>Jo@Acme.test\<close> updates the first customer, whose
  email differs, and reports its id as the customer id.
\<close>

theorem first_result_taken_unrevalidated:
  "cn_email mojo = Some ''mojo@acme.test'' \<and>
   toLowerCase ''mojo@acme.test'' \<noteq> trim (toLowerCase ''Jo@Acme.test'') \<and>
   take 2 (fst (action AdminReady 0 submission lookalike)) =
     [Call (GetCustomerByEmail (''email:'' @ [CHR 0x22] @ ''jo@acme.test'' @ [CHR 0x22])),
      Call (UpdateCustomer
        \<lparr>cu_id = ''gid://shopify/Customer/5'', cu_firstName = Some ''Jo'',
         cu_lastName = Some ''Doe'', cu_tags = [''wholesale''], cu_phone = Some ''555 0100''\<rparr>)] \<and>
   snd (action AdminReady 0 submission lookalike) =
     Result True (Some ''gid://shopify/Company/7'') (CustomerId ''gid://shopify/Customer/5'')
       ''Company and customer created successfully!'' None"
  by (simp add: run_defs submission_def lookalike_def directory_def accepted_def jo_def mojo_def)

end
